theory Spec2Isabelle
  imports Complex_Main
begin

section \<open>Python and numpy behaviour that species.py relies on\<close>

text \<open>
  The exceptions the modelled code can raise. Every function of the model that can
  raise returns \<open>error + 'a\<close>, with \<open>Inl\<close> the exception.
\<close>

datatype error = IndexError | ValueError | AttributeError

text \<open>
  \<open>xs[i]\<close> for a Python list or a one-dimensional numpy array: a negative index counts
  from the end, an index outside the array raises IndexError.
\<close>

definition py_index :: "'a list \<Rightarrow> int \<Rightarrow> error + 'a" where
  "py_index xs i =
     (if 0 \<le> i \<and> i < int (length xs) then Inr (xs ! nat i)
      else if i < 0 \<and> - int (length xs) \<le> i then Inr (xs ! nat (int (length xs) + i))
      else Inl IndexError)"

text \<open>\<open>xs[i:]\<close>: a slice never raises; a negative start counts from the end.\<close>

definition py_slice_from :: "'a list \<Rightarrow> int \<Rightarrow> 'a list" where
  "py_slice_from xs i =
     (if 0 \<le> i then drop (nat i) xs else drop (nat (int (length xs) + i)) xs)"

text \<open>
  An elementwise numpy operation \<open>a op b\<close> on one-dimensional arrays: equal shapes
  combine pointwise, a shape of one element is broadcast, any other pair of shapes
  raises ValueError.
\<close>

definition np_binop :: "('a \<Rightarrow> 'b \<Rightarrow> 'c) \<Rightarrow> 'a list \<Rightarrow> 'b list \<Rightarrow> error + 'c list" where
  "np_binop f xs ys =
     (if length xs = length ys then Inr (map2 f xs ys)
      else if length xs = 1 then Inr (map (\<lambda>y. f (hd xs) y) ys)
      else if length ys = 1 then Inr (map (\<lambda>x. f x (hd ys)) xs)
      else Inl ValueError)"

text \<open>
  The in-place form \<open>a op= b\<close>: the result keeps the shape of \<open>a\<close>, so \<open>b\<close> must have
  that shape or a single element.
\<close>

definition np_inplace :: "('a \<Rightarrow> 'b \<Rightarrow> 'a) \<Rightarrow> 'a list \<Rightarrow> 'b list \<Rightarrow> error + 'a list" where
  "np_inplace f xs ys =
     (if length ys = length xs then Inr (map2 f xs ys)
      else if length ys = 1 then Inr (map (\<lambda>x. f x (hd ys)) xs)
      else Inl ValueError)"

text \<open>
  \<open>params[:m] += data\<close> on the integer array of concentration parameters. The
  integers of numpy arrays are taken as unbounded.
\<close>

definition np_iadd_prefix :: "int list \<Rightarrow> nat \<Rightarrow> int list \<Rightarrow> error + int list" where
  "np_iadd_prefix ps m data =
     (case np_inplace (+) (take m ps) data of
        Inl e \<Rightarrow> Inl e
      | Inr pre \<Rightarrow> Inr (pre @ drop m ps))"

definition cumsum :: "real list \<Rightarrow> real list" where
  "cumsum xs = map (\<lambda>k. sum_list (take (Suc k) xs)) [0..<length xs]"

text \<open>\<open>numpy.max\<close> raises ValueError on an array without elements.\<close>

definition np_max :: "real list \<Rightarrow> error + real" where
  "np_max xs = (case xs of [] \<Rightarrow> Inl ValueError | x # r \<Rightarrow> Inr (fold max r x))"

text \<open>A list comprehension or loop whose body can raise: the first exception ends it.\<close>

primrec traverse :: "('a \<Rightarrow> error + 'b) \<Rightarrow> 'a list \<Rightarrow> error + 'b list" where
  "traverse f [] = Inr []"
| "traverse f (x # xs) =
     (case f x of
        Inl e \<Rightarrow> Inl e
      | Inr y \<Rightarrow> (case traverse f xs of Inl e \<Rightarrow> Inl e | Inr ys \<Rightarrow> Inr (y # ys)))"

subsection \<open>Double-precision weights\<close>

text \<open>
  The weights over the candidate values of N are numpy doubles. Dividing by a total
  of zero does not raise: numpy prints a warning and stores \<open>nan\<close> or an infinity.
  The model keeps these values apart from the finite ones; rounding, overflow of
  finite values and the sign of zero are not modelled.
\<close>

datatype npfloat = Fin real | PInf | NInf | NaN

fun fp_add :: "npfloat \<Rightarrow> npfloat \<Rightarrow> npfloat" where
  "fp_add (Fin a) (Fin b) = Fin (a + b)"
| "fp_add NaN y = NaN"
| "fp_add x NaN = NaN"
| "fp_add PInf NInf = NaN"
| "fp_add NInf PInf = NaN"
| "fp_add PInf y = PInf"
| "fp_add x PInf = PInf"
| "fp_add NInf y = NInf"
| "fp_add x NInf = NInf"

definition fp_sum :: "npfloat list \<Rightarrow> npfloat" where
  "fp_sum xs = foldl fp_add (Fin 0) xs"

text \<open>A weight times a finite likelihood.\<close>

fun fp_scale :: "npfloat \<Rightarrow> real \<Rightarrow> npfloat" where
  "fp_scale (Fin a) b = Fin (a * b)"
| "fp_scale NaN b = NaN"
| "fp_scale PInf b = (if b = 0 then NaN else if 0 < b then PInf else NInf)"
| "fp_scale NInf b = (if b = 0 then NaN else if 0 < b then NInf else PInf)"

fun fp_div :: "npfloat \<Rightarrow> npfloat \<Rightarrow> npfloat" where
  "fp_div (Fin a) (Fin b) =
     (if b \<noteq> 0 then Fin (a / b) else if a = 0 then NaN else if 0 < a then PInf else NInf)"
| "fp_div NaN y = NaN"
| "fp_div x NaN = NaN"
| "fp_div (Fin a) y = Fin 0"
| "fp_div PInf (Fin b) = (if 0 \<le> b then PInf else NInf)"
| "fp_div NInf (Fin b) = (if 0 \<le> b then NInf else PInf)"
| "fp_div x y = NaN"


text \<open>Weights that are all finite and positive, as the constructor leaves them.\<close>

definition positive_weights :: "npfloat list \<Rightarrow> bool" where
  "positive_weights ps = list_all (\<lambda>p. case p of Fin w \<Rightarrow> 0 < w | _ \<Rightarrow> False) ps"

text \<open>\<open>probs /= probs.sum()\<close>\<close>

definition renormalize :: "npfloat list \<Rightarrow> npfloat list" where
  "renormalize ps = map (\<lambda>p. fp_div p (fp_sum ps)) ps"

subsection \<open>The random source\<close>

text \<open>
  \<open>numpy.random.gamma(params)\<close> draws one Gamma variate per concentration parameter.
  The global generator is made explicit: \<open>g t j\<close> is coordinate \<open>j\<close> of the \<open>t\<close>-th
  vector drawn, and every function that draws takes the number of vectors drawn so
  far and returns the new count. Gamma variates are positive, so the logarithms
  the code takes are finite; the theorems below hold for every source and do not
  depend on the values drawn. A shape parameter that is not positive raises
  ValueError.
\<close>

type_synonym rng = "nat \<Rightarrow> nat \<Rightarrow> real"

definition random_gamma :: "rng \<Rightarrow> nat \<Rightarrow> int list \<Rightarrow> error + real list" where
  "random_gamma g t shape =
     (if list_ex (\<lambda>a. a \<le> 0) shape then Inl ValueError
      else Inr (map (g t) [0..<length shape]))"

text \<open>
  \<open>for i in range(k): like += sample()\<close>: the loop that adds up \<open>k\<close> sampled
  likelihood vectors, drawing vector \<open>t\<close>, \<open>t + 1\<close>, ... of the random source. It
  returns the sum and the number of vectors drawn so far.
\<close>

primrec accumulate :: "(nat \<Rightarrow> error + real list) \<Rightarrow> nat \<Rightarrow> nat \<Rightarrow> real list \<Rightarrow> error + (real list \<times> nat)" where
  "accumulate f t 0 like = Inr (like, t)"
| "accumulate f t (Suc k) like =
     (case f t of
        Inl e \<Rightarrow> Inl e
      | Inr l \<Rightarrow>
          (case np_inplace (+) like l of
             Inl e \<Rightarrow> Inl e
           | Inr like' \<Rightarrow> accumulate f (Suc t) k like'))"

subsection \<open>Helpers of thinkbayes\<close>

text \<open>
  Modelled from the spec: \<open>thinkbayes.BinomialCoef\<close> is not among the sources. The spec
  calls it the binomial coefficient C(N, m), the number of ways the m observed
  categories could have been selected out of N.
\<close>

definition BinomialCoef :: "nat \<Rightarrow> nat \<Rightarrow> real" where
  "BinomialCoef n k = real (n choose k)"

text \<open>
  \<open>thinkbayes.Beta(alpha, beta)\<close>: only the two shape parameters matter here.
\<close>

datatype beta = Beta int int

section \<open>Species2: both layers of the hierarchy in one object\<close>

record species2 =
  ns :: "nat list"
  probs :: "npfloat list"
  params :: "int list"
  iterations :: nat

text \<open>\<open>Species2.__init__\<close>: \<open>ns[-1]\<close> raises IndexError on an empty range.\<close>

definition Species2_init :: "nat list \<Rightarrow> nat \<Rightarrow> error + species2" where
  "Species2_init candidates its =
     (if candidates = [] then Inl IndexError
      else Inr \<lparr>ns = candidates, probs = replicate (length candidates) (Fin 1),
                params = replicate (last candidates) 1, iterations = its\<rparr>)"

text \<open>
  \<open>terms = numpy.log(row / c) * data; terms.sum()\<close>: the log-likelihood of the batch
  when the Gamma variates of the observed categories, \<open>row\<close>, are normalized by the
  total \<open>c\<close>.
\<close>

definition log_like_row :: "real list \<Rightarrow> int list \<Rightarrow> real \<Rightarrow> error + real" where
  "log_like_row row data c =
     (case np_binop (*) (map (\<lambda>r. ln (r / c)) row) (map real_of_int data) of
        Inl e \<Rightarrow> Inl e
      | Inr terms \<Rightarrow> Inr (sum_list terms))"

text \<open>The body of the loop over \<open>n\<close> in \<open>Species2.SampleLikelihood\<close>.\<close>

definition Species2_log_like :: "real list \<Rightarrow> real list \<Rightarrow> int list \<Rightarrow> nat \<Rightarrow> error + real" where
  "Species2_log_like row col data n =
     (case py_index col (int n - 1) of
        Inl e \<Rightarrow> Inl e
      | Inr c \<Rightarrow> log_like_row row data c)"

text \<open>
  \<open>log_likes -= numpy.max(log_likes); likes = numpy.exp(log_likes)\<close>, shared by the
  three vectorized variants.
\<close>

definition exp_scaled :: "real list \<Rightarrow> error + real list" where
  "exp_scaled log_likes =
     (case np_max log_likes of
        Inl e \<Rightarrow> Inl e
      | Inr mx \<Rightarrow> Inr (map (\<lambda>x. exp (x - mx)) log_likes))"

definition Species2_log_likes :: "real list \<Rightarrow> species2 \<Rightarrow> int list \<Rightarrow> error + real list" where
  "Species2_log_likes gammas s data =
     traverse (Species2_log_like (take (length data) gammas) (cumsum gammas) data) (ns s)"

definition Species2_SampleLikelihood :: "rng \<Rightarrow> nat \<Rightarrow> species2 \<Rightarrow> int list \<Rightarrow> error + real list" where
  "Species2_SampleLikelihood g t s data =
     (case random_gamma g t (params s) of
        Inl e \<Rightarrow> Inl e
      | Inr gammas \<Rightarrow>
          (case Species2_log_likes gammas s data of
             Inl e \<Rightarrow> Inl e
           | Inr log_likes \<Rightarrow>
               (case exp_scaled log_likes of
                  Inl e \<Rightarrow> Inl e
                | Inr likes \<Rightarrow>
                    np_inplace (*) likes (map (\<lambda>n. BinomialCoef n (length data)) (ns s)))))"

text \<open>
  The reweighting at the end of every \<open>Update\<close> of the vectorized variants:
  \<open>probs *= like; probs /= probs.sum()\<close>.
\<close>

definition reweight :: "npfloat list \<Rightarrow> real list \<Rightarrow> error + npfloat list" where
  "reweight ps like =
     (case np_inplace fp_scale ps like of
        Inl e \<Rightarrow> Inl e
      | Inr qs \<Rightarrow> Inr (renormalize qs))"

text \<open>
  \<open>Species2.Update\<close>. The loop runs \<open>range(1000)\<close>, whatever \<open>self.iterations\<close> holds.
  The result pairs the updated suite with the number of vectors drawn so far.
\<close>

definition Species2_Update :: "rng \<Rightarrow> nat \<Rightarrow> species2 \<Rightarrow> int list \<Rightarrow> error + (species2 \<times> nat)" where
  "Species2_Update g t s data =
     (case accumulate (\<lambda>i. Species2_SampleLikelihood g i s data) t 1000
             (replicate (length (ns s)) 0) of
        Inl e \<Rightarrow> Inl e
      | Inr (like, t') \<Rightarrow>
          (case reweight (probs s) like of
             Inl e \<Rightarrow> Inl e
           | Inr ps \<Rightarrow>
               (case np_iadd_prefix (params s) (length data) data of
                  Inl e \<Rightarrow> Inl e
                | Inr params' \<Rightarrow> Inr (s\<lparr>probs := ps, params := params'\<rparr>, t'))))"



definition Species2_MarginalBeta :: "species2 \<Rightarrow> nat \<Rightarrow> int \<Rightarrow> error + beta" where
  "Species2_MarginalBeta s n index =
     (case py_index (params s) index of
        Inl e \<Rightarrow> Inl e
      | Inr alpha \<Rightarrow> Inr (Beta alpha (sum_list (take n (params s)) - alpha)))"


text \<open>
  The suites of this section are well formed when they have the shape the
  constructor gives them: a weight per candidate, positive concentration parameters,
  and every candidate between 1 and the number of parameters.
\<close>

definition wf2 :: "species2 \<Rightarrow> bool" where
  "wf2 s = (ns s \<noteq> [] \<and> length (probs s) = length (ns s) \<and>
            list_all (\<lambda>a. 0 < a) (params s) \<and>
            list_all (\<lambda>n. 1 \<le> n \<and> n \<le> length (params s)) (ns s))"

text \<open>
  The candidates are consecutive and end at the number of parameters, as for a suite
  built from \<open>range(lo, hi)\<close>; the slices of Species3 and Species5 need it.
\<close>

definition wf3 :: "species2 \<Rightarrow> bool" where
  "wf3 s = (wf2 s \<and> ns s = [hd (ns s)..<Suc (length (params s))])"

section \<open>Species3: the vectorized likelihood\<close>

text \<open>
  \<open>col = numpy.cumsum(gammas)[self.ns[0]-1:]\<close> has one total per candidate when the
  candidates are consecutive. \<open>numpy.log(array) * data\<close> multiplies every row of a
  two-dimensional array by the data, so the row length and the data length must
  agree, or one of them be 1.
\<close>

definition Species3_log_likes :: "real list \<Rightarrow> species2 \<Rightarrow> int list \<Rightarrow> error + real list" where
  "Species3_log_likes gammas s data =
     (case ns s of
        [] \<Rightarrow> Inl IndexError
      | n0 # rest \<Rightarrow>
          (if length (take (length data) gammas) = length data
              \<or> length (take (length data) gammas) = 1 \<or> length data = 1
           then traverse (log_like_row (take (length data) gammas) data)
                  (py_slice_from (cumsum gammas) (int n0 - 1))
           else Inl ValueError))"

definition Species3_SampleLikelihood :: "rng \<Rightarrow> nat \<Rightarrow> species2 \<Rightarrow> int list \<Rightarrow> error + real list" where
  "Species3_SampleLikelihood g t s data =
     (case random_gamma g t (params s) of
        Inl e \<Rightarrow> Inl e
      | Inr gammas \<Rightarrow>
          (case Species3_log_likes gammas s data of
             Inl e \<Rightarrow> Inl e
           | Inr log_likes \<Rightarrow>
               (case exp_scaled log_likes of
                  Inl e \<Rightarrow> Inl e
                | Inr likes \<Rightarrow>
                    np_inplace (*) likes (map (\<lambda>n. BinomialCoef n (length data)) (ns s)))))"


section \<open>Species5: one observed category at a time\<close>

text \<open>
  \<open>Species5.SampleLikelihood(m, count)\<close>: the likelihood of \<open>count\<close> individuals of the
  \<open>m\<close>-th category under every candidate.
\<close>

definition Species5_log_likes :: "real list \<Rightarrow> species2 \<Rightarrow> nat \<Rightarrow> int \<Rightarrow> error + real list" where
  "Species5_log_likes gammas s m count =
     (case ns s of
        [] \<Rightarrow> Inl IndexError
      | n0 # rest \<Rightarrow>
          (case py_index gammas (int m - 1) of
             Inl e \<Rightarrow> Inl e
           | Inr gm \<Rightarrow>
               Inr (map (\<lambda>c. ln (gm / c) * real_of_int count)
                      (py_slice_from (cumsum gammas) (int n0 - 1)))))"

definition Species5_SampleLikelihood :: "rng \<Rightarrow> nat \<Rightarrow> species2 \<Rightarrow> nat \<Rightarrow> int \<Rightarrow> error + real list" where
  "Species5_SampleLikelihood g t s m count =
     (case random_gamma g t (params s) of
        Inl e \<Rightarrow> Inl e
      | Inr gammas \<Rightarrow>
          (case Species5_log_likes gammas s m count of
             Inl e \<Rightarrow> Inl e
           | Inr log_likes \<Rightarrow> exp_scaled log_likes))"






section \<open>The per-N suites on thinkbayes\<close>

subsection \<open>thinkbayes.Pmf, thinkbayes.Suite and thinkbayes.Dirichlet\<close>

text \<open>
  Modelled from the spec: \<open>thinkbayes.Pmf.Normalize\<close> is not among the sources. The spec
  says that it divides all weights by their sum and fails when the sum is zero; the
  per-N suites record its result as the retained probability mass, so it returns the
  sum. A distribution maps values to Python floats, here reals, and is kept as the
  list of its items.
\<close>

type_synonym 'a pmf = "('a \<times> real) list"

definition Pmf_Total :: "'a pmf \<Rightarrow> real" where
  "Pmf_Total d = sum_list (map snd d)"

definition Pmf_Normalize :: "'a pmf \<Rightarrow> error + ('a pmf \<times> real)" where
  "Pmf_Normalize d =
     (if Pmf_Total d = 0 then Inl ValueError
      else Inr (map (\<lambda>(x, p). (x, p / Pmf_Total d)) d, Pmf_Total d))"

text \<open>
  Modelled from the spec: \<open>thinkbayes.Dirichlet\<close> is not among the sources. The spec
  gives it a concentration vector of length \<open>n\<close>, all entries 1 at first, and an
  \<open>Update\<close> that adds the observed counts to the first entries; as in
  \<open>TrimMarginals\<close> below, that is \<open>params[:m] += data\<close>.
\<close>

record dirichlet =
  d_n :: nat
  d_params :: "int list"

definition Dirichlet_init :: "nat \<Rightarrow> dirichlet" where
  "Dirichlet_init k = \<lparr>d_n = k, d_params = replicate k 1\<rparr>"

definition Dirichlet_Update :: "'a dirichlet_scheme \<Rightarrow> int list \<Rightarrow> error + 'a dirichlet_scheme" where
  "Dirichlet_Update d data =
     (case np_iadd_prefix (d_params d) (length data) data of
        Inl e \<Rightarrow> Inl e
      | Inr ps \<Rightarrow> Inr (d\<lparr>d_params := ps\<rparr>))"

text \<open>
  \<open>thinkbayes.Dirichlet.Likelihood(data)\<close> makes one Monte-Carlo draw and returns the
  likelihood of the data under it. It is not among the sources and is a parameter of
  the model: \<open>draw t d data\<close> is its result on the object \<open>d\<close> when \<open>t\<close> draws have been
  made before.
\<close>

type_synonym 'h sampler = "nat \<Rightarrow> 'h \<Rightarrow> int list \<Rightarrow> real"

definition Dirichlet_Likelihood :: "'h sampler \<Rightarrow> nat \<Rightarrow> 'h \<Rightarrow> int list \<Rightarrow> error + real" where
  "Dirichlet_Likelihood draw t d data = Inr (draw t d data)"

text \<open>
  A suite maps its hypotheses, here Dirichlet objects, to weights; the list holds the
  items in the order \<open>Values()\<close> yields them. \<open>s_iterations\<close> is the attribute
  \<open>iterations\<close>, \<open>None\<close> while no constructor has set it.
\<close>

record 'h suite =
  hypos :: "('h \<times> real) list"
  s_iterations :: "nat option"

text \<open>
  Modelled from the spec: \<open>thinkbayes.Suite.Update\<close> is not among the sources. For every
  hypothesis it multiplies the weight by \<open>self.Likelihood(hypo, data)\<close>, then it
  normalizes. \<open>lik t h\<close> is the likelihood method of the suite's class; it returns the
  likelihood and the new number of draws.
\<close>

fun Suite_likelihoods :: "(nat \<Rightarrow> 'h \<Rightarrow> error + (real \<times> nat)) \<Rightarrow> nat \<Rightarrow> ('h \<times> real) list \<Rightarrow> error + (('h \<times> real) list \<times> nat)" where
  "Suite_likelihoods lik t [] = Inr ([], t)"
| "Suite_likelihoods lik t ((h, w) # rest) =
     (case lik t h of
        Inl e \<Rightarrow> Inl e
      | Inr (like, t1) \<Rightarrow>
          (case Suite_likelihoods lik t1 rest of
             Inl e \<Rightarrow> Inl e
           | Inr (rest', t2) \<Rightarrow> Inr ((h, w * like) # rest', t2)))"

definition Suite_Update :: "(nat \<Rightarrow> 'h \<Rightarrow> error + (real \<times> nat)) \<Rightarrow> nat \<Rightarrow> ('h \<times> real) list \<Rightarrow> error + (('h \<times> real) list \<times> nat)" where
  "Suite_Update lik t hs =
     (case Suite_likelihoods lik t hs of
        Inl e \<Rightarrow> Inl e
      | Inr (hs1, t1) \<Rightarrow>
          (case Pmf_Normalize hs1 of
             Inl e \<Rightarrow> Inl e
           | Inr (hs2, mass) \<Rightarrow> Inr (hs2, t1)))"

text \<open>
  Modelled from the spec: \<open>thinkbayes.Suite.__init__\<close> is not among the sources. The spec
  calls the suite a discrete prior over the candidates; the model gives the
  hypotheses equal weights that sum to 1.
\<close>

definition Suite_init :: "'h list \<Rightarrow> ('h \<times> real) list" where
  "Suite_init hs = map (\<lambda>h. (h, 1 / real (length hs))) hs"



subsection \<open>Species: one Dirichlet object per candidate\<close>

definition Species_init :: "nat list \<Rightarrow> nat \<Rightarrow> dirichlet suite" where
  "Species_init candidates its =
     \<lparr>hypos = Suite_init (map Dirichlet_init candidates), s_iterations = Some its\<rparr>"

text \<open>\<open>like = 0; for i in range(self.iterations): like += dirichlet.Likelihood(data)\<close>\<close>

primrec sum_draws :: "(nat \<Rightarrow> error + real) \<Rightarrow> nat \<Rightarrow> nat \<Rightarrow> real \<Rightarrow> error + (real \<times> nat)" where
  "sum_draws f t 0 like = Inr (like, t)"
| "sum_draws f t (Suc k) like =
     (case f t of
        Inl e \<Rightarrow> Inl e
      | Inr x \<Rightarrow> sum_draws f (Suc t) k (like + x))"

text \<open>
  \<open>Species.Likelihood\<close>. \<open>hlike\<close> is the \<open>Likelihood\<close> method of the hypothesis' class;
  reading \<open>self.iterations\<close> raises AttributeError when the attribute was never set.
\<close>

definition Species_Likelihood :: "(nat \<Rightarrow> 'a dirichlet_scheme \<Rightarrow> int list \<Rightarrow> error + real) \<Rightarrow> nat option \<Rightarrow> nat \<Rightarrow> 'a dirichlet_scheme \<Rightarrow> int list \<Rightarrow> error + (real \<times> nat)" where
  "Species_Likelihood hlike its t hypo data =
     (case its of
        None \<Rightarrow> Inl AttributeError
      | Some k \<Rightarrow>
          (case sum_draws (\<lambda>i. hlike i hypo data) t k 0 of
             Inl e \<Rightarrow> Inl e
           | Inr (like, t') \<Rightarrow> Inr (like * BinomialCoef (d_n hypo) (length data), t')))"

text \<open>
  \<open>Species.Update\<close>: the update of the parent class, which calls the \<open>Likelihood\<close> of
  the suite's own class (\<open>lik\<close>), then \<open>hypo.Update(data)\<close> for every hypothesis.
\<close>

definition Species_Update_with :: "(nat \<Rightarrow> 'a dirichlet_scheme \<Rightarrow> error + (real \<times> nat)) \<Rightarrow> nat \<Rightarrow> 'a dirichlet_scheme suite \<Rightarrow> int list \<Rightarrow> error + ('a dirichlet_scheme suite \<times> nat)" where
  "Species_Update_with lik t s data =
     (case Suite_Update lik t (hypos s) of
        Inl e \<Rightarrow> Inl e
      | Inr (hs, t') \<Rightarrow>
          (case traverse (\<lambda>(h, w). case Dirichlet_Update h data of
                                     Inl e \<Rightarrow> Inl e | Inr h' \<Rightarrow> Inr (h', w)) hs of
             Inl e \<Rightarrow> Inl e
           | Inr hs' \<Rightarrow> Inr (s\<lparr>hypos := hs'\<rparr>, t')))"

definition Species_Update :: "(nat \<Rightarrow> 'a dirichlet_scheme \<Rightarrow> int list \<Rightarrow> error + real) \<Rightarrow> nat \<Rightarrow> 'a dirichlet_scheme suite \<Rightarrow> int list \<Rightarrow> error + ('a dirichlet_scheme suite \<times> nat)" where
  "Species_Update hlike t s data =
     Species_Update_with (\<lambda>i h. Species_Likelihood hlike (s_iterations s) i h data) t s data"


subsection \<open>Species4: the per-N suite, one category at a time\<close>





subsection \<open>OversampledDirichlet and Species6\<close>

text \<open>
  \<open>weight\<close> and \<open>conditionals\<close> are set by \<open>Peek\<close>; \<open>weight\<close> is \<open>None\<close> before. The
  conditional tables are kept as distributions (the code converts them to cumulative
  form at the end of \<open>TrimMarginals\<close>).
\<close>

record oversampled = dirichlet +
  weight :: "real option"
  conditionals :: "real pmf list"

definition OversampledDirichlet_init :: "nat \<Rightarrow> oversampled" where
  "OversampledDirichlet_init k =
     \<lparr>d_n = k, d_params = replicate k 1, weight = None, conditionals = []\<rparr>"

text \<open>
  The discretized Beta distributions come from thinkbayes and are parameters of the
  model: \<open>MakePmf tb b\<close> is the table of \<open>b.MakePmf()\<close>, and \<open>Percentile tb b p\<close> is
  \<open>b.MakeCdf().Percentile(p)\<close>.
\<close>

record beta_tables =
  MakePmf :: "beta \<Rightarrow> real pmf"
  Percentile :: "beta \<Rightarrow> real \<Rightarrow> real"

text \<open>The loop of \<open>MakeConditionals\<close>, with the running total.\<close>

fun conditionals_from :: "int \<Rightarrow> int list \<Rightarrow> beta list" where
  "conditionals_from tot [] = []"
| "conditionals_from tot (x # xs) = Beta x (tot - x) # conditionals_from (tot - x) xs"

definition MakeConditionals :: "int list \<Rightarrow> beta list" where
  "MakeConditionals ps = conditionals_from (sum_list ps) (butlast ps)"

definition MakeMarginals :: "int list \<Rightarrow> beta list" where
  "MakeMarginals ps = map (\<lambda>x. Beta x (sum_list ps - x)) ps"

text \<open>
  \<open>TrimMarginal\<close> removes the values outside \<open>[low, high]\<close> and returns what
  \<open>Normalize\<close> returns, the mass that is left; the model returns the trimmed table too.
\<close>

definition TrimMarginal :: "real pmf \<Rightarrow> real \<Rightarrow> real \<Rightarrow> error + (real pmf \<times> real)" where
  "TrimMarginal pmf low high = Pmf_Normalize (filter (\<lambda>(v, p). \<not> (v < low \<or> high < v)) pmf)"


definition TrimMarginals :: "beta_tables \<Rightarrow> oversampled \<Rightarrow> int list \<Rightarrow> error + oversampled" where
  "TrimMarginals tb d data =
     (case np_iadd_prefix (d_params d) (length data) data of
        Inl e \<Rightarrow> Inl e
      | Inr ps \<Rightarrow>
          (case traverse (\<lambda>(pmf, b). TrimMarginal pmf (Percentile tb b 2) (Percentile tb b 98))
                  (zip (conditionals d) (MakeMarginals ps)) of
             Inl e \<Rightarrow> Inl e
           | Inr trimmed \<Rightarrow>
               Inr (d\<lparr>weight := Some (prod_list (map snd trimmed)),
                      conditionals := map fst trimmed\<rparr>)))"

definition Peek :: "beta_tables \<Rightarrow> oversampled \<Rightarrow> int list \<Rightarrow> error + oversampled" where
  "Peek tb d data =
     TrimMarginals tb (d\<lparr>conditionals := map (MakePmf tb) (MakeConditionals (d_params d))\<rparr>) data"

text \<open>
  \<open>OversampledDirichlet.Likelihood\<close>: the \<open>Likelihood\<close> of the parent class times
  \<open>self.weight\<close>, an AttributeError while \<open>Peek\<close> has not set it.
\<close>

definition Oversampled_Likelihood :: "oversampled sampler \<Rightarrow> nat \<Rightarrow> oversampled \<Rightarrow> int list \<Rightarrow> error + real" where
  "Oversampled_Likelihood draw t d data =
     (case weight d of
        None \<Rightarrow> Inl AttributeError
      | Some w \<Rightarrow> Inr (draw t d data * w))"

text \<open>\<open>Species6.__init__\<close> takes no iteration count and sets no \<open>iterations\<close>.\<close>

definition Species6_init :: "nat list \<Rightarrow> oversampled suite" where
  "Species6_init candidates =
     \<lparr>hypos = Suite_init (map OversampledDirichlet_init candidates), s_iterations = None\<rparr>"

text \<open>
  \<open>Species6.Update\<close>: \<open>Peek\<close> on every hypothesis, then the update of the parent
  class with the inherited \<open>Species.Likelihood\<close>, then \<open>hypo.Update(data)\<close>.
\<close>

definition Species6_Update :: "beta_tables \<Rightarrow> oversampled sampler \<Rightarrow> nat \<Rightarrow> oversampled suite \<Rightarrow> int list \<Rightarrow> error + (oversampled suite \<times> nat)" where
  "Species6_Update tb draw t s data =
     (case traverse (\<lambda>(h, w). case Peek tb h data of
                                Inl e \<Rightarrow> Inl e | Inr h' \<Rightarrow> Inr (h', w)) (hypos s) of
        Inl e \<Rightarrow> Inl e
      | Inr hs \<Rightarrow> Species_Update (Oversampled_Likelihood draw) t (s\<lparr>hypos := hs\<rparr>) data)"

section \<open>Properties\<close>

lemma traverse_ok:
  "(\<And>x. x \<in> set xs \<Longrightarrow> \<exists>y. f x = Inr y) \<Longrightarrow> \<exists>ys. traverse f xs = Inr ys \<and> length ys = length xs"
proof (induction xs)
  case Nil
  then show ?case by simp
next
  case (Cons x xs)
  then obtain y where y: "f x = Inr y" by auto
  from Cons obtain ys where "traverse f xs = Inr ys" "length ys = length xs" by auto
  with y show ?case by simp
qed

lemma traverse_Inr_map:
  "traverse f xs = Inr ys \<Longrightarrow> map f xs = map Inr ys"
  by (induction xs arbitrary: ys) (auto split: sum.splits)

lemma traverse_length: "traverse f xs = Inr ys \<Longrightarrow> length ys = length xs"
  by (induction xs arbitrary: ys) (auto split: sum.splits)


lemma length_cumsum [simp]: "length (cumsum xs) = length xs"
  by (simp add: cumsum_def)

lemma random_gamma_ok:
  "\<forall>a\<in>set shape. 0 < a \<Longrightarrow> random_gamma g t shape = Inr (map (g t) [0..<length shape])"
  by (auto simp: random_gamma_def list_ex_iff)


lemma np_max_ok: "xs \<noteq> [] \<Longrightarrow> \<exists>m. np_max xs = Inr m"
  by (cases xs) (auto simp: np_max_def)

lemma exp_scaled_ok: "xs \<noteq> [] \<Longrightarrow> \<exists>ys. exp_scaled xs = Inr ys \<and> length ys = length xs"
  by (cases xs) (auto simp: exp_scaled_def np_max_def)

lemma exp_scaled_length: "exp_scaled xs = Inr ys \<Longrightarrow> length ys = length xs"
  by (auto simp: exp_scaled_def split: sum.splits)

lemma Species2_log_like_ok:
  assumes "1 \<le> n" "n \<le> length col" "length row = length data"
  shows "\<exists>y. Species2_log_like row col data n = Inr y"
  using assms by (auto simp: Species2_log_like_def log_like_row_def py_index_def np_binop_def)

lemma Species2_SampleLikelihood_ok:
  assumes "\<forall>a\<in>set (params s). 0 < a"
    and "\<forall>n\<in>set (ns s). 1 \<le> n \<and> n \<le> length (params s)"
    and "length data \<le> length (params s)"
    and "ns s \<noteq> []"
  shows "\<exists>likes. Species2_SampleLikelihood g t s data = Inr likes \<and> length likes = length (ns s)"
proof -
  let ?gs = "map (g t) [0..<length (params s)]"
  have rg: "random_gamma g t (params s) = Inr ?gs" using assms(1) by (rule random_gamma_ok)
  have "\<And>n. n \<in> set (ns s) \<Longrightarrow> \<exists>y. Species2_log_like (take (length data) ?gs) (cumsum ?gs) data n = Inr y"
    using assms(2,3) by (intro Species2_log_like_ok) auto
  then obtain lls where lls: "Species2_log_likes ?gs s data = Inr lls" "length lls = length (ns s)"
    unfolding Species2_log_likes_def using traverse_ok by blast
  with assms(4) have "lls \<noteq> []" by auto
  then obtain es where es: "exp_scaled lls = Inr es" "length es = length lls"
    using exp_scaled_ok by blast
  show ?thesis
    using rg lls es by (simp add: Species2_SampleLikelihood_def np_inplace_def)
qed

lemma accumulate_ok:
  assumes "\<And>i. \<exists>l. f i = Inr l \<and> length l = length like"
  shows "\<exists>r. accumulate f t k like = Inr (r, t + k) \<and> length r = length like"
  using assms
proof (induction k arbitrary: t like)
  case 0
  then show ?case by simp
next
  case (Suc k)
  from Suc.prems obtain l where l: "f t = Inr l" "length l = length like" by blast
  have "\<exists>r. accumulate f (Suc t) k (map2 (+) like l) = Inr (r, Suc t + k) \<and>
             length r = length (map2 (+) like l)"
    by (rule Suc.IH) (use Suc.prems l in auto)
  with l show ?case by (auto simp: np_inplace_def)
qed

lemma accumulate_count: "accumulate f t k like = Inr (r, t') \<Longrightarrow> t' = t + k"
proof (induction k arbitrary: t like)
  case 0
  then show ?case by simp
next
  case (Suc k)
  from Suc.prems obtain l like' where "accumulate f (Suc t) k like' = Inr (r, t')"
    by (auto split: sum.splits)
  from Suc.IH [OF this] show ?case by simp
qed

lemma np_iadd_prefix_ok:
  "length data \<le> length ps \<Longrightarrow>
   np_iadd_prefix ps (length data) data =
     Inr (map2 (+) (take (length data) ps) data @ drop (length data) ps)"
  by (simp add: np_iadd_prefix_def np_inplace_def)

lemma reweight_ok:
  "length like = length ps \<Longrightarrow> reweight ps like = Inr (renormalize (map2 fp_scale ps like))"
  by (simp add: reweight_def np_inplace_def)

lemma Species2_Update_ok:
  assumes "wf2 s" and "length data \<le> length (params s)"
  shows "\<exists>like. length like = length (ns s) \<and>
           accumulate (\<lambda>i. Species2_SampleLikelihood g i s data) t 1000
             (replicate (length (ns s)) 0) = Inr (like, t + 1000) \<and>
           Species2_Update g t s data =
             Inr (s\<lparr>probs := renormalize (map2 fp_scale (probs s) like),
                    params := map2 (+) (take (length data) (params s)) data
                              @ drop (length data) (params s)\<rparr>, t + 1000)"
proof -
  have "\<And>i. \<exists>l. Species2_SampleLikelihood g i s data = Inr l \<and>
                 length l = length (replicate (length (ns s)) (0::real))"
    using Species2_SampleLikelihood_ok [of s data g] assms
    by (simp add: wf2_def list_all_iff)
  then obtain like where like:
    "accumulate (\<lambda>i. Species2_SampleLikelihood g i s data) t 1000
       (replicate (length (ns s)) 0) = Inr (like, t + 1000)" "length like = length (ns s)"
    using accumulate_ok [of "\<lambda>i. Species2_SampleLikelihood g i s data" "replicate (length (ns s)) 0" t 1000]
    by auto
  have rw: "reweight (probs s) like = Inr (renormalize (map2 fp_scale (probs s) like))"
    using like assms(1) by (intro reweight_ok) (simp add: wf2_def)
  show ?thesis
    using like rw np_iadd_prefix_ok [OF assms(2)]
    by (auto simp: Species2_Update_def)
qed

lemma wf2_init: "Species2_init [3] k = Inr s \<Longrightarrow> wf2 s \<and> params s = [1, 1, 1]"
  by (auto simp: Species2_init_def wf2_def numeral_3_eq_3)

text \<open>
  Claim C1, as the code has it. A 3-category suite starts from the flat prior
  \<open>[1, 1, 1]\<close>; after \<open>Update([3, 2, 1])\<close> the parameters are \<open>[4, 3, 2]\<close>, whatever the
  random draws, and \<open>MarginalBeta(3, i)\<close> is the Beta distribution with parameters
  \<open>(params[i], sum(params) - params[i])\<close>, that is
  \<open>(1 + data[i], 2 + sum(data) - data[i])\<close>: the other two categories contribute
  their prior 1 each, so the second parameter starts from 2, not from 1.
\<close>

theorem C1_marginal_after_update:
  assumes "Species2_init [3] k = Inr s" and "i < 3"
  shows "\<exists>s' t'. Species2_Update g t s [3, 2, 1] = Inr (s', t') \<and>
           Species2_MarginalBeta s' 3 (int i) =
             Inr (Beta (1 + [3, 2, 1] ! i) (2 + sum_list [3, 2, 1] - [3, 2, 1] ! i))"
proof -
  from assms(1) have wf: "wf2 s" and ps: "params s = [1, 1, 1]"
    using wf2_init by blast+
  have len: "length [3, 2, 1 :: int] \<le> length (params s)" by (simp add: ps)
  from Species2_Update_ok [OF wf len, of g t] obtain like where
    upd: "Species2_Update g t s [3, 2, 1] =
      Inr (s\<lparr>probs := renormalize (map2 fp_scale (probs s) like),
             params := map2 (+) (take (length [3, 2, 1 :: int]) (params s)) [3, 2, 1]
                       @ drop (length [3, 2, 1 :: int]) (params s)\<rparr>, t + 1000)"
    by blast
  have "i = 0 \<or> i = 1 \<or> i = 2" using assms(2) by arith
  then show ?thesis
    unfolding upd by (auto simp: ps Species2_MarginalBeta_def py_index_def numeral_3_eq_3)
qed


text \<open>The theorem at coordinate 0, with every Gamma variate equal to 1.\<close>

theorem C1_marginal_after_update_witness:
  "\<exists>s' t'. Species2_Update (\<lambda>t j. 1) 0
       \<lparr>ns = [3], probs = [Fin 1], params = [1, 1, 1], iterations = 1000\<rparr> [3, 2, 1] = Inr (s', t') \<and>
     Species2_MarginalBeta s' 3 0 = Inr (Beta 4 5)"
proof -
  have i: "Species2_init [3] 1000 =
      Inr \<lparr>ns = [3], probs = [Fin 1], params = [1, 1, 1], iterations = 1000\<rparr>"
    by (simp add: Species2_init_def numeral_3_eq_3)
  have "(0::nat) < 3" by simp
  from C1_marginal_after_update [OF i this, of "\<lambda>t j. 1" 0] show ?thesis by simp
qed

text \<open>
  Claim C1 as stated fails: at coordinate 0 the marginal is \<open>Beta 4 5\<close>, and the
  claimed parameters \<open>(1 + data[0], 1 + sum(data) - data[0])\<close> are \<open>(4, 4)\<close>.
\<close>

theorem C1_counterexample:
  "\<exists>s s' t'. Species2_init [3] 1000 = Inr s \<and>
     Species2_Update (\<lambda>t j. 1) 0 s [3, 2, 1] = Inr (s', t') \<and>
     Species2_MarginalBeta s' 3 0 = Inr (Beta 4 5) \<and>
     Beta 4 5 \<noteq> Beta (1 + [3, 2, 1] ! 0) (1 + sum_list [3, 2, 1] - [3, 2, 1] ! 0)"
proof -
  let ?s = "\<lparr>ns = [3], probs = [Fin 1], params = [1, 1, 1], iterations = 1000\<rparr>"
  have i: "Species2_init [3] 1000 = Inr ?s"
    by (simp add: Species2_init_def numeral_3_eq_3)
  have wf: "wf2 ?s" by (simp add: wf2_def)
  have len: "length [3, 2, 1 :: int] \<le> length (params ?s)" by simp
  from Species2_Update_ok [OF wf len, of "\<lambda>t j. 1" 0] obtain like where
    upd: "Species2_Update (\<lambda>t j. 1) 0 ?s [3, 2, 1] =
      Inr (?s\<lparr>probs := renormalize (map2 fp_scale (probs ?s) like),
             params := map2 (+) (take (length [3, 2, 1 :: int]) (params ?s)) [3, 2, 1]
                       @ drop (length [3, 2, 1 :: int]) (params ?s)\<rparr>, 0 + 1000)"
    by blast
  define s' where "s' = ?s\<lparr>probs := renormalize (map2 fp_scale (probs ?s) like),
             params := map2 (+) (take (length [3, 2, 1 :: int]) (params ?s)) [3, 2, 1]
                       @ drop (length [3, 2, 1 :: int]) (params ?s)\<rparr>"
  have m: "Species2_MarginalBeta s' 3 0 = Inr (Beta 4 5)"
    by (simp add: s'_def Species2_MarginalBeta_def py_index_def)
  have ne: "Beta 4 5 \<noteq> Beta (1 + [3, 2, 1] ! 0) (1 + sum_list [3, 2, 1] - [3, 2, 1] ! 0)"
    by simp
  from upd have "Species2_Update (\<lambda>t j. 1) 0 ?s [3, 2, 1] = Inr (s', 1000)"
    by (simp add: s'_def)
  with i m ne show ?thesis by blast
qed

lemma Species2_Update_draws:
  "Species2_Update g t s data = Inr (s', t') \<Longrightarrow> t' = t + 1000"
  by (auto simp: Species2_Update_def split: sum.splits dest: accumulate_count)

text \<open>
  Claim C7 at a failing input: a Species2 suite constructed with iteration count 5
  stores 5 in \<open>iterations\<close>, yet its \<open>Update\<close> draws 1000 likelihood vectors, because
  the loop runs \<open>range(1000)\<close> and never reads the attribute.
\<close>

theorem C7_Species2_ignores_iterations:
  "\<exists>s s'. Species2_init [3] 5 = Inr s \<and> iterations s = 5 \<and>
     Species2_Update g 0 s [3, 2, 1] = Inr (s', 1000)"
proof -
  let ?s = "\<lparr>ns = [3], probs = [Fin 1], params = [1, 1, 1], iterations = 5\<rparr>"
  have i: "Species2_init [3] 5 = Inr ?s"
    by (simp add: Species2_init_def numeral_3_eq_3)
  have wf: "wf2 ?s" by (simp add: wf2_def)
  have len: "length [3, 2, 1 :: int] \<le> length (params ?s)" by simp
  from Species2_Update_ok [OF wf len, of g 0] obtain s' where
    "Species2_Update g 0 ?s [3, 2, 1] = Inr (s', 1000)" by auto
  with i show ?thesis by auto
qed

lemma np_max_Max:
  assumes "np_max xs = Inr m"
  shows "xs \<noteq> [] \<and> m = Max (set xs)"
proof (cases xs)
  case Nil
  with assms show ?thesis by (simp add: np_max_def)
next
  case (Cons a list)
  from assms have "m = fold max list a" by (simp add: np_max_def Cons)
  also have "\<dots> = Max (set (a # list))" by (rule Max.set_eq_fold [symmetric])
  finally show ?thesis using Cons by simp
qed

lemma exp_scaled_nth:
  assumes "exp_scaled xs = Inr ys"
  shows "xs \<noteq> []" and "length ys = length xs"
    and "\<And>j. j < length xs \<Longrightarrow> ys ! j = exp (xs ! j - Max (set xs))"
  using assms by (auto simp: exp_scaled_def split: sum.splits dest: np_max_Max)

lemma exp_scaled_bounds:
  assumes "exp_scaled xs = Inr ys" and "j < length xs"
  shows "0 < ys ! j" and "ys ! j \<le> 1"
proof -
  have y: "ys ! j = exp (xs ! j - Max (set xs))" using assms by (rule exp_scaled_nth(3))
  show "0 < ys ! j" by (simp add: y)
  have "xs ! j \<le> Max (set xs)" using assms(2) by simp
  then show "ys ! j \<le> 1" by (simp add: y)
qed

lemma exp_scaled_Max:
  assumes "exp_scaled xs = Inr ys"
  shows "Max (set ys) = 1"
proof (rule Max_eqI)
  show "finite (set ys)" by simp
  have len: "length ys = length xs" and ne: "xs \<noteq> []"
    using assms by (rule exp_scaled_nth)+
  show "y \<le> 1" if "y \<in> set ys" for y
  proof -
    from that obtain j where "j < length ys" "y = ys ! j" by (auto simp: in_set_conv_nth)
    then show ?thesis using exp_scaled_bounds(2) [OF assms] len by simp
  qed
  from ne have "Max (set xs) \<in> set xs" by (intro Max_in) auto
  then obtain j where j: "j < length xs" "xs ! j = Max (set xs)"
    by (auto simp: in_set_conv_nth)
  then have "ys ! j = 1" using exp_scaled_nth(3) [OF assms] by simp
  then show "1 \<in> set ys" using j len by (metis nth_mem)
qed

lemma accumulate_sum:
  assumes "accumulate f t k like = Inr (r, t')"
    and "\<And>i l. f i = Inr l \<Longrightarrow> length l = length like"
  shows "\<exists>ls. length ls = k \<and> (\<forall>i<k. f (t + i) = Inr (ls ! i)) \<and> length r = length like \<and>
           (\<forall>j<length like. r ! j = like ! j + (\<Sum>i<k. ls ! i ! j))"
  using assms
proof (induction k arbitrary: t like)
  case 0
  then show ?case by simp
next
  case (Suc k)
  from Suc.prems(1) obtain l where l: "f t = Inr l"
    by (auto split: sum.splits)
  then have ll: "length l = length like" by (rule Suc.prems(2))
  with Suc.prems(1) l have acc: "accumulate f (Suc t) k (map2 (+) like l) = Inr (r, t')"
    by (simp add: np_inplace_def)
  have "\<exists>ls. length ls = k \<and> (\<forall>i<k. f (Suc t + i) = Inr (ls ! i)) \<and>
          length r = length (map2 (+) like l) \<and>
          (\<forall>j<length (map2 (+) like l). r ! j = map2 (+) like l ! j + (\<Sum>i<k. ls ! i ! j))"
    by (rule Suc.IH [OF acc]) (use Suc.prems(2) ll in auto)
  then obtain ls where ls: "length ls = k" "\<forall>i<k. f (Suc t + i) = Inr (ls ! i)"
    "length r = length like"
    "\<forall>j<length like. r ! j = like ! j + l ! j + (\<Sum>i<k. ls ! i ! j)"
    using ll by auto
  have a: "\<forall>i<Suc k. f (t + i) = Inr ((l # ls) ! i)"
  proof (intro allI impI)
    fix i assume "i < Suc k"
    then show "f (t + i) = Inr ((l # ls) ! i)"
      using l ls(2) by (cases i) auto
  qed
  have b: "\<forall>j<length like. r ! j = like ! j + (\<Sum>i<Suc k. (l # ls) ! i ! j)"
    using ls(4) by (simp add: sum.lessThan_Suc_shift del: sum.lessThan_Suc)
  show ?case
    using ls(1,3) a b by (intro exI [of _ "l # ls"]) simp
qed

lemma Species2_SampleLikelihood_nth:
  assumes "Species2_SampleLikelihood g t s data = Inr likes"
  shows "length likes = length (ns s)"
    and "\<And>j. j < length (ns s) \<Longrightarrow>
          \<exists>e. 0 < e \<and> e \<le> 1 \<and> likes ! j = e * BinomialCoef (ns s ! j) (length data)"
proof -
  from assms obtain gammas lls es where
    lls: "Species2_log_likes gammas s data = Inr lls" and es: "exp_scaled lls = Inr es"
    and r: "np_inplace (*) es (map (\<lambda>n. BinomialCoef n (length data)) (ns s)) = Inr likes"
    by (auto simp: Species2_SampleLikelihood_def split: sum.splits)
  have l1: "length lls = length (ns s)"
    using lls by (auto simp: Species2_log_likes_def dest: traverse_length)
  have l2: "length es = length (ns s)" using exp_scaled_nth(2) [OF es] l1 by simp
  from r l2 have likes: "likes = map2 (*) es (map (\<lambda>n. BinomialCoef n (length data)) (ns s))"
    by (simp add: np_inplace_def)
  show "length likes = length (ns s)" by (simp add: likes l2)
  fix j assume j: "j < length (ns s)"
  have "0 < es ! j" "es ! j \<le> 1"
    using exp_scaled_bounds [OF es, of j] j l1 by simp_all
  moreover have "likes ! j = es ! j * BinomialCoef (ns s ! j) (length data)"
    using j l2 by (simp add: likes)
  ultimately show "\<exists>e. 0 < e \<and> e \<le> 1 \<and> likes ! j = e * BinomialCoef (ns s ! j) (length data)"
    by blast
qed

lemma foldl_fp_add_Fin: "foldl fp_add (Fin a) (map Fin ws) = Fin (a + sum_list ws)"
  by (induction ws arbitrary: a) (simp_all add: add.assoc)

lemma fp_sum_Fin: "fp_sum (map Fin ws) = Fin (sum_list ws)"
  by (simp add: fp_sum_def foldl_fp_add_Fin)

lemma positive_weightsD:
  "positive_weights ps \<Longrightarrow> \<exists>ws. ps = map Fin ws \<and> (\<forall>w\<in>set ws. 0 < w)"
proof (induction ps)
  case Nil
  then show ?case by simp
next
  case (Cons p ps)
  then obtain ws where ws: "ps = map Fin ws" "\<forall>w\<in>set ws. 0 < w"
    by (auto simp: positive_weights_def)
  from Cons.prems obtain w where "p = Fin w" "0 < w"
    by (cases p) (auto simp: positive_weights_def)
  with ws show ?case by (intro exI [of _ "w # ws"]) simp
qed


lemma sum_list_divide: "sum_list (map (\<lambda>q. q / c) qs) = sum_list qs / (c::real)"
  by (induction qs) (simp_all add: add_divide_distrib)

lemma renormalize_Fin:
  "sum_list qs \<noteq> 0 \<Longrightarrow> renormalize (map Fin qs) = map Fin (map (\<lambda>q. q / sum_list qs) qs)"
  by (simp add: renormalize_def fp_sum_Fin)

lemma member_le_sum_list_real:
  "\<forall>x\<in>set xs. 0 \<le> x \<Longrightarrow> y \<in> set xs \<Longrightarrow> y \<le> sum_list (xs :: real list)"
proof (induction xs)
  case Nil
  then show ?case by simp
next
  case (Cons a xs)
  have "0 \<le> sum_list xs" using Cons.prems(1) by (intro sum_list_nonneg) simp
  then show ?case using Cons by auto
qed

lemma reweight_positive:
  assumes pw: "positive_weights ps" and len: "length like = length ps"
    and nonneg: "\<forall>j<length ps. 0 \<le> like ! j"
    and pos: "k < length ps" "0 < like ! k"
  shows "\<exists>ws. reweight ps like = Inr (map Fin ws) \<and> sum_list ws = 1 \<and>
           length ws = length ps \<and>
           (\<forall>j<length ps. (like ! j = 0 \<longrightarrow> ws ! j = 0) \<and> (0 < like ! j \<longrightarrow> 0 < ws ! j))"
proof -
  from positive_weightsD [OF pw] obtain vs where vs: "ps = map Fin vs" "\<forall>w\<in>set vs. 0 < w"
    by blast
  define qs where "qs = map2 (*) vs like"
  have lq: "length qs = length ps" by (simp add: qs_def vs len [unfolded vs])
  have lv: "length vs = length ps" by (simp add: vs)
  have qj: "qs ! j = vs ! j * like ! j" if "j < length ps" for j
    using that len lv by (simp add: qs_def)
  have vpos: "0 < vs ! j" if "j < length ps" for j
    using that vs(2) lv by (metis nth_mem)
  have qnn: "\<forall>x\<in>set qs. 0 \<le> x"
  proof
    fix x assume "x \<in> set qs"
    then obtain j where "j < length qs" "x = qs ! j" by (auto simp: in_set_conv_nth)
    then show "0 \<le> x" using qj [of j] vpos [of j] nonneg lq by simp
  qed
  have "0 < qs ! k" using qj [OF pos(1)] vpos [OF pos(1)] pos(2) by simp
  moreover have "qs ! k \<le> sum_list qs"
    using qnn pos(1) lq by (intro member_le_sum_list_real) auto
  ultimately have tot: "0 < sum_list qs" by linarith
  have sc: "map2 fp_scale ps like = map Fin qs"
    unfolding vs qs_def using len [unfolded vs]
    by (intro nth_equalityI) simp_all
  have rw: "reweight ps like = Inr (map Fin (map (\<lambda>q. q / sum_list qs) qs))"
    using tot by (simp add: reweight_ok [OF len] sc renormalize_Fin)
  have one: "sum_list (map (\<lambda>q. q / sum_list qs) qs) = 1"
    using tot by (simp add: sum_list_divide)
  have each: "(like ! j = 0 \<longrightarrow> map (\<lambda>q. q / sum_list qs) qs ! j = 0) \<and>
              (0 < like ! j \<longrightarrow> 0 < map (\<lambda>q. q / sum_list qs) qs ! j)"
    if "j < length ps" for j
    using that lq qj [OF that] vpos [OF that] tot by simp
  show ?thesis
    using rw one lq each by (intro exI [of _ "map (\<lambda>q. q / sum_list qs) qs"]) simp
qed

lemma Species2_like_nth:
  assumes acc: "accumulate (\<lambda>i. Species2_SampleLikelihood g i s data) t k
                  (replicate (length (ns s)) 0) = Inr (like, t')"
  shows "length like = length (ns s)"
    and "\<And>j. j < length (ns s) \<Longrightarrow>
          \<exists>e. 0 \<le> e \<and> (0 < k \<longrightarrow> 0 < e) \<and> like ! j = e * BinomialCoef (ns s ! j) (length data)"
proof -
  from accumulate_sum [OF acc] obtain ls where ls: "length ls = k"
    "\<forall>i<k. Species2_SampleLikelihood g (t + i) s data = Inr (ls ! i)"
    "length like = length (ns s)"
    "\<forall>j<length (ns s). like ! j = (\<Sum>i<k. ls ! i ! j)"
    using Species2_SampleLikelihood_nth(1) by fastforce
  show "length like = length (ns s)" by (rule ls(3))
  fix j assume j: "j < length (ns s)"
  let ?c = "BinomialCoef (ns s ! j) (length data)"
  have "\<forall>i<k. \<exists>e. 0 < e \<and> ls ! i ! j = e * ?c"
    using ls(2) Species2_SampleLikelihood_nth(2) [OF _ j] by blast
  then obtain E where E: "\<forall>i<k. 0 < E i \<and> ls ! i ! j = E i * ?c"
    by metis
  have "like ! j = (\<Sum>i<k. E i * ?c)" using ls(4) j E by simp
  also have "\<dots> = (\<Sum>i<k. E i) * ?c" by (simp add: sum_distrib_right)
  finally have eq: "like ! j = (\<Sum>i<k. E i) * ?c" .
  have nn: "0 \<le> (\<Sum>i<k. E i)" using E by (intro sum_nonneg) (auto intro: less_imp_le)
  have ps: "0 < k \<longrightarrow> 0 < (\<Sum>i<k. E i)"
  proof
    assume "0 < k"
    then show "0 < (\<Sum>i<k. E i)" using E by (intro sum_pos) auto
  qed
  from eq nn ps
  show "\<exists>e. 0 \<le> e \<and> (0 < k \<longrightarrow> 0 < e) \<and> like ! j = e * ?c" by blast
qed

lemma BinomialCoef_pos: "m \<le> n \<Longrightarrow> 0 < BinomialCoef n m"
  by (simp add: BinomialCoef_def)

lemma BinomialCoef_zero: "n < m \<Longrightarrow> BinomialCoef n m = 0"
  by (simp add: BinomialCoef_def)

lemma BinomialCoef_nonneg: "0 \<le> BinomialCoef n m"
  by (simp add: BinomialCoef_def)

lemma Species2_Update_weights:
  assumes wf: "wf2 s" and pw: "positive_weights (probs s)"
    and k: "k < length (ns s)" "length data \<le> ns s ! k"
  shows "\<exists>like ws. Species2_Update g t s data =
             Inr (s\<lparr>probs := map Fin ws,
                    params := map2 (+) (take (length data) (params s)) data
                              @ drop (length data) (params s)\<rparr>, t + 1000) \<and>
           length ws = length (ns s) \<and> sum_list ws = 1 \<and>
           (\<forall>j<length (ns s). (ns s ! j < length data \<longrightarrow> ws ! j = 0) \<and>
                               (length data \<le> ns s ! j \<longrightarrow> 0 < ws ! j))"
proof -
  have lp: "length (probs s) = length (ns s)" using wf by (simp add: wf2_def)
  have "ns s ! k \<le> length (params s)"
    using wf k(1) by (auto simp: wf2_def list_all_length)
  then have len: "length data \<le> length (params s)" using k(2) by simp
  from Species2_Update_ok [OF wf len, of g t] obtain like where
    ll: "length like = length (ns s)"
    and acc: "accumulate (\<lambda>i. Species2_SampleLikelihood g i s data) t 1000
                (replicate (length (ns s)) 0) = Inr (like, t + 1000)"
    and upd: "Species2_Update g t s data =
             Inr (s\<lparr>probs := renormalize (map2 fp_scale (probs s) like),
                    params := map2 (+) (take (length data) (params s)) data
                              @ drop (length data) (params s)\<rparr>, t + 1000)"
    by blast
  have lj: "\<exists>e. 0 < e \<and> like ! j = e * BinomialCoef (ns s ! j) (length data)"
    if "j < length (ns s)" for j
    using Species2_like_nth(2) [OF acc that] by auto
  have nonneg: "\<forall>j<length (probs s). 0 \<le> like ! j"
    using lj lp BinomialCoef_nonneg by (metis less_imp_le mult_nonneg_nonneg)
  have posk: "0 < like ! k"
    using lj [OF k(1)] BinomialCoef_pos [OF k(2)] by auto
  from reweight_positive [OF pw _ nonneg _ posk] ll lp k(1)
  obtain ws where ws: "reweight (probs s) like = Inr (map Fin ws)" "sum_list ws = 1"
    "length ws = length (ns s)"
    "\<forall>j<length (ns s). (like ! j = 0 \<longrightarrow> ws ! j = 0) \<and> (0 < like ! j \<longrightarrow> 0 < ws ! j)"
    by auto
  have rn: "renormalize (map2 fp_scale (probs s) like) = map Fin ws"
    using ws(1) reweight_ok [of like "probs s"] ll lp by simp
  have each: "(ns s ! j < length data \<longrightarrow> ws ! j = 0) \<and> (length data \<le> ns s ! j \<longrightarrow> 0 < ws ! j)"
    if "j < length (ns s)" for j
  proof -
    from lj [OF that] obtain e where e: "0 < e" "like ! j = e * BinomialCoef (ns s ! j) (length data)"
      by blast
    show ?thesis
      using ws(4) that e BinomialCoef_zero [of "ns s ! j" "length data"]
        BinomialCoef_pos [of "length data" "ns s ! j"] by auto
  qed
  show ?thesis
    using upd rn ws(2,3) each by auto
qed

text \<open>
  Claim C9, as the code has it. Neither the constructor nor \<open>Update\<close> compares the
  candidates with the number \<open>m\<close> of observed categories. When some candidate is at
  least \<open>m\<close>, \<open>Species2.Update\<close> returns without an error, whatever the random draws;
  a candidate \<open>N < m\<close> is not rejected: its binomial coefficient C(N, m) is 0, so its
  weight becomes 0, and the weights still sum to 1.
\<close>

theorem C9_no_range_check:
  assumes "wf2 s" and "positive_weights (probs s)"
    and "k < length (ns s)" and "length data \<le> ns s ! k"
    and "j < length (ns s)" and "ns s ! j < length data"
  shows "\<exists>s' t' ws. Species2_Update g t s data = Inr (s', t') \<and>
           probs s' = map Fin ws \<and> ws ! j = 0 \<and> sum_list ws = 1"
proof -
  from Species2_Update_weights [OF assms(1-4), of g t] obtain s' ws where
    "Species2_Update g t s data = Inr (s', t + 1000)" "probs s' = map Fin ws" "sum_list ws = 1"
    "\<forall>j<length (ns s). (ns s ! j < length data \<longrightarrow> ws ! j = 0)"
    by auto
  with assms(5,6) show ?thesis by blast
qed

text \<open>The theorem on the candidates 2 and 3 and a batch of three categories.\<close>

theorem C9_no_range_check_witness:
  "\<exists>s' t' ws. Species2_Update (\<lambda>t j. 1) 0
       \<lparr>ns = [2, 3], probs = [Fin 1, Fin 1], params = [1, 1, 1], iterations = 1000\<rparr>
       [1, 1, 1] = Inr (s', t') \<and>
     probs s' = map Fin ws \<and> ws ! 0 = 0 \<and> sum_list ws = 1"
proof -
  let ?s = "\<lparr>ns = [2, 3], probs = [Fin 1, Fin 1], params = [1, 1, 1], iterations = 1000\<rparr>"
  have 1: "wf2 ?s" by (simp add: wf2_def)
  have 2: "positive_weights (probs ?s)" by (simp add: positive_weights_def)
  have 3: "1 < length (ns ?s)" by simp
  have 4: "length [1, 1, 1 :: int] \<le> ns ?s ! 1" by simp
  have 5: "0 < length (ns ?s)" by simp
  have 6: "ns ?s ! 0 < length [1, 1, 1 :: int]" by simp
  from C9_no_range_check [OF 1 2 3 4 5 6] show ?thesis .
qed

text \<open>
  Claim C9 as stated fails: the range \<open>[2, 3]\<close> has the candidate 2, smaller than the
  three observed categories, yet the constructor and the first update both return.
\<close>

theorem C9_counterexample:
  "\<exists>s s' t'. Species2_init [2, 3] 1000 = Inr s \<and> ns s ! 0 < length [1, 1, 1 :: int] \<and>
     Species2_Update (\<lambda>t j. 1) 0 s [1, 1, 1] = Inr (s', t')"
proof -
  let ?s = "\<lparr>ns = [2, 3], probs = [Fin 1, Fin 1], params = [1, 1, 1], iterations = 1000\<rparr>"
  have i: "Species2_init [2, 3] 1000 = Inr ?s"
    by (simp add: Species2_init_def numeral_3_eq_3 numeral_2_eq_2)
  have wf: "wf2 ?s" by (simp add: wf2_def)
  have len: "length [1, 1, 1 :: int] \<le> length (params ?s)" by simp
  from Species2_Update_ok [OF wf len, of "\<lambda>t j. 1" 0] obtain s' where
    "Species2_Update (\<lambda>t j. 1) 0 ?s [1, 1, 1] = Inr (s', 1000)" by auto
  moreover have "ns ?s ! 0 < length [1, 1, 1 :: int]" by simp
  ultimately show ?thesis using i by blast
qed

lemma wf3_col_length:
  assumes "wf3 s" and "ns s = n0 # rest" and "length gs = length (params s)"
  shows "py_slice_from (cumsum gs) (int n0 - 1) = drop (n0 - 1) (cumsum gs)"
    and "length (drop (n0 - 1) (cumsum gs)) = length (ns s)"
    and "1 \<le> n0"
proof -
  from assms(1,2) have n0: "1 \<le> n0" "n0 \<le> length (params s)"
    by (auto simp: wf3_def wf2_def)
  show "1 \<le> n0" by (rule n0(1))
  from n0 show "py_slice_from (cumsum gs) (int n0 - 1) = drop (n0 - 1) (cumsum gs)"
    by (simp add: py_slice_from_def nat_diff_distrib')
  from assms(1,2) have "ns s = [n0..<Suc (length (params s))]"
    by (simp add: wf3_def)
  then have "length (ns s) = Suc (length (params s)) - n0" by (metis length_upt)
  then show "length (drop (n0 - 1) (cumsum gs)) = length (ns s)"
    using n0 assms(3) by simp
qed

lemma log_like_row_ok:
  "length row = length data \<Longrightarrow> \<exists>y. log_like_row row data c = Inr y"
  by (simp add: log_like_row_def np_binop_def)

lemma Species3_log_likes_ok:
  assumes "wf3 s" and "length data \<le> length (params s)" and "length gs = length (params s)"
  shows "\<exists>lls. Species3_log_likes gs s data = Inr lls \<and> length lls = length (ns s)"
proof -
  from assms(1) obtain n0 rest where ns: "ns s = n0 # rest"
    by (cases "ns s") (auto simp: wf3_def wf2_def)
  have row: "length (take (length data) gs) = length data" using assms(2,3) by simp
  have "\<exists>ys. traverse (log_like_row (take (length data) gs) data) (drop (n0 - 1) (cumsum gs)) = Inr ys
          \<and> length ys = length (drop (n0 - 1) (cumsum gs))"
    by (rule traverse_ok) (rule log_like_row_ok [OF row])
  then show ?thesis
    using wf3_col_length [OF assms(1) ns assms(3)] row
    by (simp add: Species3_log_likes_def ns)
qed


lemma wf2_params_pos: "wf2 s \<Longrightarrow> \<forall>a\<in>set (params s). 0 < a"
  by (simp add: wf2_def list_all_iff)

lemma Species3_SampleLikelihood_ok:
  assumes "wf3 s" and "length data \<le> length (params s)"
  shows "\<exists>likes. Species3_SampleLikelihood g t s data = Inr likes \<and> length likes = length (ns s)"
proof -
  let ?gs = "map (g t) [0..<length (params s)]"
  have wf: "wf2 s" using assms(1) by (simp add: wf3_def)
  have rg: "random_gamma g t (params s) = Inr ?gs"
    using wf2_params_pos [OF wf] by (rule random_gamma_ok)
  from Species3_log_likes_ok [OF assms, of ?gs] obtain lls where
    lls: "Species3_log_likes ?gs s data = Inr lls" "length lls = length (ns s)" by auto
  with wf have "lls \<noteq> []" by (auto simp: wf2_def)
  then obtain es where es: "exp_scaled lls = Inr es" "length es = length lls"
    using exp_scaled_ok by blast
  show ?thesis
    using rg lls es by (simp add: Species3_SampleLikelihood_def np_inplace_def)
qed


lemma Species5_SampleLikelihood_ok:
  assumes "wf3 s" and "1 \<le> m" and "m \<le> length (params s)"
  shows "\<exists>likes. Species5_SampleLikelihood g t s m c = Inr likes \<and> length likes = length (ns s)"
proof -
  let ?gs = "map (g t) [0..<length (params s)]"
  have wf: "wf2 s" using assms(1) by (simp add: wf3_def)
  have rg: "random_gamma g t (params s) = Inr ?gs"
    using wf2_params_pos [OF wf] by (rule random_gamma_ok)
  from wf obtain n0 rest where ns: "ns s = n0 # rest"
    by (cases "ns s") (auto simp: wf2_def)
  have ix: "\<exists>gm. py_index ?gs (int m - 1) = Inr gm"
    using assms(2,3) by (auto simp: py_index_def)
  then obtain gm where gm: "py_index ?gs (int m - 1) = Inr gm" by blast
  have cl: "length (py_slice_from (cumsum ?gs) (int n0 - 1)) = length (ns s)"
    using wf3_col_length [OF assms(1) ns, of ?gs] by simp
  have lls: "Species5_log_likes ?gs s m c =
      Inr (map (\<lambda>x. ln (gm / x) * real_of_int c) (py_slice_from (cumsum ?gs) (int n0 - 1)))"
    by (simp add: Species5_log_likes_def ns gm)
  have "map (\<lambda>x. ln (gm / x) * real_of_int c) (py_slice_from (cumsum ?gs) (int n0 - 1)) \<noteq> []"
    using cl ns by auto
  from exp_scaled_ok [OF this] obtain es where
    "exp_scaled (map (\<lambda>x. ln (gm / x) * real_of_int c) (py_slice_from (cumsum ?gs) (int n0 - 1))) = Inr es"
    "length es = length (ns s)" using cl by auto
  then show ?thesis
    using rg lls by (simp add: Species5_SampleLikelihood_def)
qed


lemma exp_scaled_eq:
  "exp_scaled lls = Inr es \<Longrightarrow> es = map (\<lambda>x. exp (x - Max (set lls))) lls"
  by (auto simp: exp_scaled_def split: sum.splits dest: np_max_Max)

text \<open>
  Claim C5. In the three vectorized likelihood computations, whenever
  \<open>SampleLikelihood\<close> returns, the vector that is exponentiated is the vector of
  log-likelihoods minus its maximum over the candidates; the largest exponentiated
  value is therefore exactly 1, before the binomial coefficients (Species2,
  Species3) or the unseen-species factors (Species5, applied later in \<open>UpdateOne\<close>)
  are multiplied in. Stated over the reals.
\<close>

theorem C5_max_subtracted_before_exp:
  "(Species2_SampleLikelihood g t s data = Inr likes2 \<longrightarrow>
      (\<exists>gammas lls es. random_gamma g t (params s) = Inr gammas \<and>
         Species2_log_likes gammas s data = Inr lls \<and>
         es = map (\<lambda>x. exp (x - Max (set lls))) lls \<and> Max (set es) = 1 \<and>
         np_inplace (*) es (map (\<lambda>n. BinomialCoef n (length data)) (ns s)) = Inr likes2)) \<and>
   (Species3_SampleLikelihood g t s data = Inr likes3 \<longrightarrow>
      (\<exists>gammas lls es. random_gamma g t (params s) = Inr gammas \<and>
         Species3_log_likes gammas s data = Inr lls \<and>
         es = map (\<lambda>x. exp (x - Max (set lls))) lls \<and> Max (set es) = 1 \<and>
         np_inplace (*) es (map (\<lambda>n. BinomialCoef n (length data)) (ns s)) = Inr likes3)) \<and>
   (Species5_SampleLikelihood g t s m count = Inr likes5 \<longrightarrow>
      (\<exists>gammas lls. random_gamma g t (params s) = Inr gammas \<and>
         Species5_log_likes gammas s m count = Inr lls \<and>
         likes5 = map (\<lambda>x. exp (x - Max (set lls))) lls \<and> Max (set likes5) = 1))"
proof (intro conjI impI)
  assume "Species2_SampleLikelihood g t s data = Inr likes2"
  then obtain gammas lls es where "random_gamma g t (params s) = Inr gammas"
    "Species2_log_likes gammas s data = Inr lls" "exp_scaled lls = Inr es"
    "np_inplace (*) es (map (\<lambda>n. BinomialCoef n (length data)) (ns s)) = Inr likes2"
    by (auto simp: Species2_SampleLikelihood_def split: sum.splits)
  then show "\<exists>gammas lls es. random_gamma g t (params s) = Inr gammas \<and>
         Species2_log_likes gammas s data = Inr lls \<and>
         es = map (\<lambda>x. exp (x - Max (set lls))) lls \<and> Max (set es) = 1 \<and>
         np_inplace (*) es (map (\<lambda>n. BinomialCoef n (length data)) (ns s)) = Inr likes2"
    using exp_scaled_eq exp_scaled_Max by blast
next
  assume "Species3_SampleLikelihood g t s data = Inr likes3"
  then obtain gammas lls es where "random_gamma g t (params s) = Inr gammas"
    "Species3_log_likes gammas s data = Inr lls" "exp_scaled lls = Inr es"
    "np_inplace (*) es (map (\<lambda>n. BinomialCoef n (length data)) (ns s)) = Inr likes3"
    by (auto simp: Species3_SampleLikelihood_def split: sum.splits)
  then show "\<exists>gammas lls es. random_gamma g t (params s) = Inr gammas \<and>
         Species3_log_likes gammas s data = Inr lls \<and>
         es = map (\<lambda>x. exp (x - Max (set lls))) lls \<and> Max (set es) = 1 \<and>
         np_inplace (*) es (map (\<lambda>n. BinomialCoef n (length data)) (ns s)) = Inr likes3"
    using exp_scaled_eq exp_scaled_Max by blast
next
  assume "Species5_SampleLikelihood g t s m count = Inr likes5"
  then obtain gammas lls where "random_gamma g t (params s) = Inr gammas"
    "Species5_log_likes gammas s m count = Inr lls" "exp_scaled lls = Inr likes5"
    by (auto simp: Species5_SampleLikelihood_def split: sum.splits)
  then show "\<exists>gammas lls. random_gamma g t (params s) = Inr gammas \<and>
         Species5_log_likes gammas s m count = Inr lls \<and>
         likes5 = map (\<lambda>x. exp (x - Max (set lls))) lls \<and> Max (set likes5) = 1"
    using exp_scaled_eq exp_scaled_Max by blast
qed

text \<open>
  The three computations return on the suite with the single candidate 3 and the
  batch \<open>[3, 2, 1]\<close> (for Species5: category 1 with count 3), so the theorem applies.
\<close>

theorem C5_max_subtracted_before_exp_witness:
  "(\<exists>likes2 gammas lls es.
      Species2_SampleLikelihood (\<lambda>t j. 1) 0
        \<lparr>ns = [3], probs = [Fin 1], params = [1, 1, 1], iterations = 1000\<rparr> [3, 2, 1] = Inr likes2 \<and>
      Species2_log_likes gammas
        \<lparr>ns = [3], probs = [Fin 1], params = [1, 1, 1], iterations = 1000\<rparr> [3, 2, 1] = Inr lls \<and>
      es = map (\<lambda>x. exp (x - Max (set lls))) lls \<and> Max (set es) = 1) \<and>
   (\<exists>likes3 gammas lls es.
      Species3_SampleLikelihood (\<lambda>t j. 1) 0
        \<lparr>ns = [3], probs = [Fin 1], params = [1, 1, 1], iterations = 1000\<rparr> [3, 2, 1] = Inr likes3 \<and>
      Species3_log_likes gammas
        \<lparr>ns = [3], probs = [Fin 1], params = [1, 1, 1], iterations = 1000\<rparr> [3, 2, 1] = Inr lls \<and>
      es = map (\<lambda>x. exp (x - Max (set lls))) lls \<and> Max (set es) = 1) \<and>
   (\<exists>likes5.
      Species5_SampleLikelihood (\<lambda>t j. 1) 0
        \<lparr>ns = [3], probs = [Fin 1], params = [1, 1, 1], iterations = 1000\<rparr> 1 3 = Inr likes5 \<and>
      Max (set likes5) = 1)"
proof -
  let ?s = "\<lparr>ns = [3], probs = [Fin 1], params = [1, 1, 1], iterations = 1000\<rparr>"
  let ?g = "\<lambda>(t::nat) (j::nat). 1::real"
  have wf2: "wf2 ?s" by (simp add: wf2_def)
  have wf3: "wf3 ?s" by (simp add: wf3_def wf2_def)
  have len: "length [3, 2, 1 :: int] \<le> length (params ?s)" by simp
  have a: "\<forall>a\<in>set (params ?s). 0 < a" by simp
  have b: "\<forall>n\<in>set (ns ?s). 1 \<le> n \<and> n \<le> length (params ?s)" by simp
  have c: "ns ?s \<noteq> []" by simp
  from Species2_SampleLikelihood_ok [OF a b len c, of ?g 0] obtain l2 where
    l2: "Species2_SampleLikelihood ?g 0 ?s [3, 2, 1] = Inr l2" by blast
  from Species3_SampleLikelihood_ok [OF wf3 len, of ?g 0] obtain l3 where
    l3: "Species3_SampleLikelihood ?g 0 ?s [3, 2, 1] = Inr l3" by blast
  have "1 \<le> (1::nat)" "(1::nat) \<le> length (params ?s)" by simp_all
  from Species5_SampleLikelihood_ok [OF wf3 this, of ?g 0 3] obtain l5 where
    l5: "Species5_SampleLikelihood ?g 0 ?s 1 3 = Inr l5" by blast
  note C5_max_subtracted_before_exp [of ?g 0 ?s "[3, 2, 1]" l2 l3 1 3 l5]
  with l2 l3 l5 show ?thesis by blast
qed








lemma sum_draws_Inr:
  "sum_draws (\<lambda>i. Inr (x i)) t k a = Inr (a + (\<Sum>i<k. x (t + i)), t + k)"
proof (induction k arbitrary: t a)
  case 0
  then show ?case by simp
next
  case (Suc k)
  show ?case
    by (simp add: Suc.IH sum.lessThan_Suc_shift add.assoc del: sum.lessThan_Suc)
qed

lemma sum_draws_count: "sum_draws f t k a = Inr (r, t') \<Longrightarrow> t' = t + k"
proof (induction k arbitrary: t a)
  case 0
  then show ?case by simp
next
  case (Suc k)
  from Suc.prems obtain x where "sum_draws f (Suc t) k (a + x) = Inr (r, t')"
    by (auto split: sum.splits)
  from Suc.IH [OF this] show ?case by simp
qed

lemma Species_Likelihood_sum:
  "Species_Likelihood (Dirichlet_Likelihood draw) (Some k) t hypo data =
     Inr ((\<Sum>i<k. draw (t + i) hypo data) * BinomialCoef (d_n hypo) (length data), t + k)"
  by (simp add: Species_Likelihood_def Dirichlet_Likelihood_def sum_draws_Inr)

lemma Suite_likelihoods_fst:
  "Suite_likelihoods lik t hs = Inr (hs', t') \<Longrightarrow> map fst hs' = map fst hs"
  by (induction lik t hs arbitrary: hs' t' rule: Suite_likelihoods.induct)
     (auto split: sum.splits)

lemma Pmf_Normalize_fst: "Pmf_Normalize d = Inr (d', m) \<Longrightarrow> map fst d' = map fst d"
  by (auto simp: Pmf_Normalize_def split: if_splits)

lemma Suite_Update_fst:
  "Suite_Update lik t hs = Inr (hs', t') \<Longrightarrow> map fst hs' = map fst hs"
proof -
  assume "Suite_Update lik t hs = Inr (hs', t')"
  then obtain a b where 1: "Suite_likelihoods lik t hs = Inr (a, t')"
    and 2: "Pmf_Normalize a = Inr (hs', b)"
    by (auto simp: Suite_Update_def split: sum.splits)
  from Suite_likelihoods_fst [OF 1] Pmf_Normalize_fst [OF 2] show ?thesis by simp
qed

lemma traverse_pair_update:
  "traverse (\<lambda>(h, w). case f h of Inl e \<Rightarrow> Inl e | Inr h' \<Rightarrow> Inr (h', w)) hs = Inr hs' \<Longrightarrow>
     map snd hs' = map snd hs \<and> map (\<lambda>h. Inr h) (map fst hs') = map f (map fst hs)"
proof (induction hs arbitrary: hs')
  case Nil
  then show ?case by simp
next
  case (Cons a hs)
  obtain h w where a: "a = (h, w)" by (cases a)
  from Cons.prems obtain h' ys where
    "f h = Inr h'" "traverse (\<lambda>(h, w). case f h of Inl e \<Rightarrow> Inl e | Inr h' \<Rightarrow> Inr (h', w)) hs = Inr ys"
    "hs' = (h', w) # ys"
    by (auto simp: a split: sum.splits)
  with Cons.IH [of ys] show ?case by (simp add: a)
qed

text \<open>
  Claim C6, as the code has it. \<open>Species.Likelihood\<close> returns the sum of the
  \<open>iterations\<close> Monte-Carlo draws from the candidate's own Dirichlet object, times
  the binomial coefficient C(N, m): the draws are added up and never divided by
  their number, so the value is \<open>iterations\<close> times their average times C(N, m).
  In \<open>Species.Update\<close> the weights come from the update of the parent class, which
  sees the Dirichlet objects as they were before the batch; each object is then
  updated with the full batch, and the weights are those of the parent's update.
\<close>

theorem C6_likelihood_is_sum_of_draws:
  "Species_Likelihood (Dirichlet_Likelihood draw) (Some k) t hypo data =
     Inr ((\<Sum>i<k. draw (t + i) hypo data) * BinomialCoef (d_n hypo) (length data), t + k) \<and>
   (Species_Update (Dirichlet_Likelihood draw) t s data = Inr (s', t') \<longrightarrow>
     (\<exists>hs. Suite_Update
              (\<lambda>i h. Species_Likelihood (Dirichlet_Likelihood draw) (s_iterations s) i h data)
              t (hypos s) = Inr (hs, t') \<and>
           map fst hs = map fst (hypos s) \<and>
           map snd (hypos s') = map snd hs \<and>
           map (\<lambda>h. Inr h) (map fst (hypos s')) =
             map (\<lambda>h. Dirichlet_Update h data) (map fst (hypos s))))"
proof (intro conjI impI)
  show "Species_Likelihood (Dirichlet_Likelihood draw) (Some k) t hypo data =
     Inr ((\<Sum>i<k. draw (t + i) hypo data) * BinomialCoef (d_n hypo) (length data), t + k)"
    by (rule Species_Likelihood_sum)
next
  assume "Species_Update (Dirichlet_Likelihood draw) t s data = Inr (s', t')"
  then obtain hs hs' where
    su: "Suite_Update
              (\<lambda>i h. Species_Likelihood (Dirichlet_Likelihood draw) (s_iterations s) i h data)
              t (hypos s) = Inr (hs, t')"
    and tr: "traverse (\<lambda>(h, w). case Dirichlet_Update h data of
                                     Inl e \<Rightarrow> Inl e | Inr h' \<Rightarrow> Inr (h', w)) hs = Inr hs'"
    and s': "s' = s\<lparr>hypos := hs'\<rparr>"
    by (auto simp: Species_Update_def Species_Update_with_def split: sum.splits)
  from traverse_pair_update [OF tr] Suite_Update_fst [OF su] su s'
  show "\<exists>hs. Suite_Update
              (\<lambda>i h. Species_Likelihood (Dirichlet_Likelihood draw) (s_iterations s) i h data)
              t (hypos s) = Inr (hs, t') \<and>
           map fst hs = map fst (hypos s) \<and>
           map snd (hypos s') = map snd hs \<and>
           map (\<lambda>h. Inr h) (map fst (hypos s')) =
             map (\<lambda>h. Dirichlet_Update h data) (map fst (hypos s))"
    by auto
qed

lemma Species_Update_one_candidate:
  "Species_Update (Dirichlet_Likelihood (\<lambda>t d x. 1)) 0 (Species_init [3] 2) [3, 2, 1] =
     Inr (\<lparr>hypos = [(\<lparr>d_n = 3, d_params = [4, 3, 2]\<rparr>, 1)], s_iterations = Some 2\<rparr>, 2)"
  by (simp add: Species_Update_def Species_Update_with_def Suite_Update_def Species_init_def
      Suite_init_def Dirichlet_init_def Species_Likelihood_sum BinomialCoef_def
      Pmf_Normalize_def Pmf_Total_def Dirichlet_Update_def np_iadd_prefix_def np_inplace_def
      numeral_3_eq_3)


text \<open>The theorem on the suite with the single candidate 3, two draws per update.\<close>

theorem C6_likelihood_is_sum_of_draws_witness:
  "Species_Likelihood (Dirichlet_Likelihood (\<lambda>t d x. 1)) (Some 2) 0 (Dirichlet_init 3) [3, 2, 1] =
     Inr ((\<Sum>i<(2::nat). 1) * BinomialCoef (d_n (Dirichlet_init 3)) (length [3, 2, 1 :: int]), 0 + 2) \<and>
   (\<exists>hs. Suite_Update
            (\<lambda>i h. Species_Likelihood (Dirichlet_Likelihood (\<lambda>t d x. 1))
                      (s_iterations (Species_init [3] 2)) i h [3, 2, 1])
            0 (hypos (Species_init [3] 2)) = Inr (hs, 2) \<and>
          map fst hs = map fst (hypos (Species_init [3] 2)))"
proof -
  note th = C6_likelihood_is_sum_of_draws [of "\<lambda>t d x. 1" 2 0 "Dirichlet_init 3" "[3, 2, 1]"
      "Species_init [3] 2"
      "\<lparr>hypos = [(\<lparr>d_n = 3, d_params = [4, 3, 2]\<rparr>, 1)], s_iterations = Some 2\<rparr>" 2]
  from conjunct1 [OF th] conjunct2 [OF th, rule_format, OF Species_Update_one_candidate]
  show ?thesis by blast
qed

text \<open>
  Claim C6 as stated fails: with two draws of likelihood 1 each for the candidate 3
  and three observed categories, \<open>Species.Likelihood\<close> returns 2, the sum of the draws
  times C(3, 3); their average times C(3, 3) is 1.
\<close>

theorem C6_counterexample:
  "\<exists>like. Species_Likelihood (Dirichlet_Likelihood (\<lambda>t d x. 1)) (Some 2) 0
             (Dirichlet_init 3) [3, 2, 1] = Inr (like, 2) \<and>
     like = 2 \<and>
     like \<noteq> ((\<Sum>i<(2::nat). (\<lambda>t d x. 1 :: real) i (Dirichlet_init 3) [3, 2, 1 :: int]) / 2)
              * BinomialCoef 3 (length [3, 2, 1 :: int])"
  by (simp add: Species_Likelihood_sum BinomialCoef_def Dirichlet_init_def numeral_3_eq_3)

lemma Suite_likelihoods_AttributeError:
  assumes "hs \<noteq> []" and "\<And>i h. lik i h = Inl AttributeError"
  shows "Suite_likelihoods lik t hs = Inl AttributeError"
proof (cases hs)
  case Nil
  with assms(1) show ?thesis by simp
next
  case (Cons a rest)
  obtain h w where "a = (h, w)" by (cases a)
  with Cons assms(2) show ?thesis by simp
qed

lemma Species_Update_no_iterations:
  assumes "hypos s \<noteq> []" and "s_iterations s = None"
  shows "Species_Update hlike t s data = Inl AttributeError"
proof -
  have "Suite_likelihoods (\<lambda>i h. Species_Likelihood hlike (s_iterations s) i h data) t (hypos s)
          = Inl AttributeError"
    using assms(1) by (rule Suite_likelihoods_AttributeError) (simp add: assms(2) Species_Likelihood_def)
  then show ?thesis
    by (simp add: Species_Update_def Species_Update_with_def Suite_Update_def)
qed

lemma Species6_init_hypos:
  "candidates \<noteq> [] \<Longrightarrow> hypos (Species6_init candidates) \<noteq> []"
  "s_iterations (Species6_init candidates) = None"
  by (simp_all add: Species6_init_def Suite_init_def)

lemma Peek_too_many_categories:
  assumes "k < length data" and "length data \<noteq> 1"
  shows "Peek tb (OversampledDirichlet_init k) data = Inl ValueError"
  using assms
  by (simp add: Peek_def TrimMarginals_def OversampledDirichlet_init_def np_iadd_prefix_def
      np_inplace_def)

text \<open>
  Claim C10, as the code has it. For a non-empty candidate range,
  \<open>Species6(ns).Update(data)\<close> never returns a suite. When the \<open>Peek\<close> phase completes,
  the inherited \<open>Species.Likelihood\<close> reads \<open>self.iterations\<close>, which the constructor
  of Species6 never sets, and the update raises AttributeError. When the first
  candidate is smaller than the number \<open>m\<close> of observed categories (and \<open>m\<close> is not
  1), \<open>Peek\<close> already raises ValueError: \<open>params[:m] += data\<close> in \<open>TrimMarginals\<close> adds
  \<open>m\<close> counts to fewer than \<open>m\<close> parameters.
\<close>

theorem C10_Species6_never_completes:
  assumes "candidates \<noteq> []"
  shows "(\<exists>e. Species6_Update tb draw t (Species6_init candidates) data = Inl e) \<and>
         (\<forall>hs. traverse (\<lambda>(h, w). case Peek tb h data of
                                     Inl e \<Rightarrow> Inl e | Inr h' \<Rightarrow> Inr (h', w))
                  (hypos (Species6_init candidates)) = Inr hs \<longrightarrow>
               Species6_Update tb draw t (Species6_init candidates) data = Inl AttributeError) \<and>
         (hd candidates < length data \<and> length data \<noteq> 1 \<longrightarrow>
               Species6_Update tb draw t (Species6_init candidates) data = Inl ValueError)"
proof -
  let ?s = "Species6_init candidates"
  let ?peek = "\<lambda>(h, w). case Peek tb h data of Inl e \<Rightarrow> Inl e | Inr h' \<Rightarrow> Inr (h', w :: real)"
  have ok: "Species6_Update tb draw t ?s data = Inl AttributeError"
    if "traverse ?peek (hypos ?s) = Inr hs" for hs
  proof -
    from traverse_length [OF that] Species6_init_hypos(1) [OF assms]
    have "hypos (?s\<lparr>hypos := hs\<rparr>) \<noteq> []" by auto
    moreover have "s_iterations (?s\<lparr>hypos := hs\<rparr>) = None"
      by (simp add: Species6_init_hypos(2))
    ultimately have "Species_Update (Oversampled_Likelihood draw) t (?s\<lparr>hypos := hs\<rparr>) data
        = Inl AttributeError"
      by (rule Species_Update_no_iterations)
    with that show ?thesis by (simp add: Species6_Update_def)
  qed
  have 1: "\<exists>e. Species6_Update tb draw t ?s data = Inl e"
  proof (cases "traverse ?peek (hypos ?s)")
    case (Inl e)
    then show ?thesis by (simp add: Species6_Update_def)
  next
    case (Inr hs)
    from ok [OF this] show ?thesis by blast
  qed
  have 3: "Species6_Update tb draw t ?s data = Inl ValueError"
    if "hd candidates < length data" "length data \<noteq> 1"
  proof -
    from assms obtain c rest where c: "candidates = c # rest" by (cases candidates) auto
    with that have "Peek tb (OversampledDirichlet_init c) data = Inl ValueError"
      by (intro Peek_too_many_categories) simp_all
    then show ?thesis
      by (simp add: Species6_Update_def Species6_init_def Suite_init_def c)
  qed
  from 1 ok 3 show ?thesis by blast
qed

text \<open>
  The theorem on the range \<open>[3]\<close> with the batch \<open>[3, 2, 1]\<close>, where \<open>Peek\<close> completes,
  and on the range \<open>[2]\<close> with the batch \<open>[1, 1, 1]\<close>, where it does not.
\<close>

theorem C10_Species6_never_completes_witness:
  "Species6_Update
      \<lparr>MakePmf = \<lambda>b. [(1 / 2, 1)], Percentile = \<lambda>b p. if p = 2 then 0 else 1\<rparr>
      (\<lambda>t d x. 1) 0 (Species6_init [3]) [3, 2, 1] = Inl AttributeError \<and>
   Species6_Update
      \<lparr>MakePmf = \<lambda>b. [(1 / 2, 1)], Percentile = \<lambda>b p. if p = 2 then 0 else 1\<rparr>
      (\<lambda>t d x. 1) 0 (Species6_init [2]) [1, 1, 1] = Inl ValueError"
proof -
  let ?tb = "\<lparr>MakePmf = \<lambda>b. [(1 / 2, 1 :: real)], Percentile = \<lambda>b p. if p = 2 then 0 else (1 :: real)\<rparr>"
  have p: "traverse (\<lambda>(h, w). case Peek ?tb h [3, 2, 1] of
                                     Inl e \<Rightarrow> Inl e | Inr h' \<Rightarrow> Inr (h', w))
             (hypos (Species6_init [3])) =
           Inr [(\<lparr>d_n = 3, d_params = [1, 1, 1], weight = Some 1,
                  conditionals = [[(1 / 2, 1)], [(1 / 2, 1)]]\<rparr>, 1)]"
    by (simp add: Species6_init_def Suite_init_def OversampledDirichlet_init_def Peek_def
        TrimMarginals_def np_iadd_prefix_def np_inplace_def MakeConditionals_def
        MakeMarginals_def TrimMarginal_def Pmf_Normalize_def Pmf_Total_def numeral_3_eq_3)
  have a: "[3::nat] \<noteq> []" and b: "[2::nat] \<noteq> []" by simp_all
  have c: "hd [2::nat] < length [1, 1, 1 :: int] \<and> length [1, 1, 1 :: int] \<noteq> 1" by simp
  note t3 = C10_Species6_never_completes [OF a, of ?tb "\<lambda>t d x. 1" 0 "[3, 2, 1]"]
  note t2 = C10_Species6_never_completes [OF b, of ?tb "\<lambda>t d x. 1" 0 "[1, 1, 1]"]
  from t3 p have "Species6_Update ?tb (\<lambda>t d x. 1) 0 (Species6_init [3]) [3, 2, 1] = Inl AttributeError"
    by blast
  moreover from t2 c have "Species6_Update ?tb (\<lambda>t d x. 1) 0 (Species6_init [2]) [1, 1, 1] = Inl ValueError"
    by blast
  ultimately show ?thesis by blast
qed

text \<open>
  Claim C10 as stated fails: for the range \<open>[2]\<close> and the non-empty batch
  \<open>[1, 1, 1]\<close> the update raises ValueError in \<open>Peek\<close>, not AttributeError.
\<close>

theorem C10_counterexample:
  "Species6_Update \<lparr>MakePmf = \<lambda>b. [], Percentile = \<lambda>b p. 0\<rparr> (\<lambda>t d x. 1) 0
      (Species6_init [2]) [1, 1, 1] = Inl ValueError \<and>
   ValueError \<noteq> AttributeError"
  by (simp add: Species6_Update_def Species6_init_def Suite_init_def
      OversampledDirichlet_init_def Peek_def TrimMarginals_def np_iadd_prefix_def
      np_inplace_def numeral_2_eq_2)




















































end
